theory Spec2Isabelle
  imports Complex_Main
begin

section \<open>Minions: robot classifiers of \<^verbatim>\<open>minion_zoo/minion.py\<close>\<close>

text \<open>
  The module defines an abstract class \<^verbatim>\<open>minion\<close> and four subclasses. Every class has
  a constructor and one method, \<^verbatim>\<open>classify\<close>. An instance is a record of its
  attributes; a method takes \<^verbatim>\<open>self\<close> and returns its result together with
  \<^verbatim>\<open>self\<close> as the call leaves it, so that what a call does to the instance is part of
  the model. An exception is a value of type \<open>error\<close>, returned on the left of a sum.
\<close>

subsection \<open>Python values and exceptions\<close>

text \<open>
  The labels \<^verbatim>\<open>NoisyMinion.classify\<close> returns are Python ints (the gold label) or
  Python bools (the value of \<^verbatim>\<open>gold_label == 0\<close>).
\<close>

datatype pyval = PyInt int | PyBool bool



datatype error = NotImplementedError | ValueError string | IndexError

subsection \<open>class minion\<close>

record minion =
  id_attr :: int
  name :: string

definition minion_init :: "int \<Rightarrow> string \<Rightarrow> minion" where
  "minion_init ident nm = \<lparr>id_attr = ident, name = nm\<rparr>"

definition minion_classify :: "minion \<Rightarrow> int \<Rightarrow> (error + int \<times> pyval) \<times> minion" where
  "minion_classify self subject_id = (Inl NotImplementedError, self)"

subsection \<open>class ExpertMinion\<close>

type_synonym ExpertMinion = minion

definition ExpertMinion_init :: "int \<Rightarrow> string \<Rightarrow> ExpertMinion" where
  "ExpertMinion_init ident nm = minion_init ident nm"

text \<open>
  The method returns its two arguments as a pair, whatever they are, and cannot raise:
  the gold label is of any type \<open>'l\<close>.
\<close>

definition ExpertMinion_classify ::
    "ExpertMinion \<Rightarrow> int \<Rightarrow> 'l \<Rightarrow> (int \<times> 'l) \<times> ExpertMinion" where
  "ExpertMinion_classify self subject_id gold_label = ((subject_id, gold_label), self)"

subsection \<open>class AllTheSingleLabelsMinion\<close>

record 'l AllTheSingleLabelsMinion = minion +
  label :: 'l

definition AllTheSingleLabelsMinion_init ::
    "int \<Rightarrow> string \<Rightarrow> 'l \<Rightarrow> 'l AllTheSingleLabelsMinion" where
  "AllTheSingleLabelsMinion_init ident nm lbl =
     minion.extend (minion_init ident nm) (AllTheSingleLabelsMinion.fields lbl)"

definition AllTheSingleLabelsMinion_classify ::
    "'l AllTheSingleLabelsMinion \<Rightarrow> int \<Rightarrow> (int \<times> 'l) \<times> 'l AllTheSingleLabelsMinion" where
  "AllTheSingleLabelsMinion_classify self subject_id = ((subject_id, label self), self)"

subsection \<open>class RandomMinion\<close>

record 'l RandomMinion = minion +
  labels :: "'l list"

definition RandomMinion_init :: "int \<Rightarrow> string \<Rightarrow> 'l list \<Rightarrow> 'l RandomMinion" where
  "RandomMinion_init ident nm lbls =
     minion.extend (minion_init ident nm) (RandomMinion.fields lbls)"

text \<open>
  \<^verbatim>\<open>random.choice(seq)\<close> belongs to Python's library: it asks the process-wide generator
  for an index \<open>k\<close> in \<^verbatim>\<open>range(len(seq))\<close> and returns \<^verbatim>\<open>seq[k]\<close>; on an empty
  sequence it raises \<^verbatim>\<open>IndexError\<close>. The index the generator delivers in a call is a
  parameter of the model.
\<close>

definition random_choice :: "nat \<Rightarrow> 'a list \<Rightarrow> error + 'a" where
  "random_choice k seq = (if k < length seq then Inr (seq ! k) else Inl IndexError)"

definition RandomMinion_classify ::
    "'l RandomMinion \<Rightarrow> nat \<Rightarrow> int \<Rightarrow> (error + int \<times> 'l) \<times> 'l RandomMinion" where
  "RandomMinion_classify self k subject_id =
     (case random_choice k (labels self) of
        Inl e \<Rightarrow> (Inl e, self)
      | Inr l \<Rightarrow> (Inr (subject_id, l), self))"

subsection \<open>class NoisyMinion\<close>

text \<open>
  The confusion matrix is a one-dimensional numpy array (the constructor compares it
  with a number and calls \<^verbatim>\<open>.any()\<close> on the outcome). Its elements are modelled as
  reals: the code only compares them, and comparison of finite floats is exact. The
  floats that are no reals (\<^verbatim>\<open>nan\<close>, \<^verbatim>\<open>inf\<close>) are outside the model.
\<close>

record NoisyMinion = minion +
  confusion_matrix :: "real list"

text \<open>\<^verbatim>\<open>(a < c)\<close> and \<^verbatim>\<open>(a > c)\<close> on an array: the array of the elementwise outcomes.\<close>

definition ndarray_lt :: "real list \<Rightarrow> real \<Rightarrow> bool list" where
  "ndarray_lt a c = map (\<lambda>x. x < c) a"

definition ndarray_gt :: "real list \<Rightarrow> real \<Rightarrow> bool list" where
  "ndarray_gt a c = map (\<lambda>x. x > c) a"

text \<open>\<^verbatim>\<open>.any()\<close>: whether some element is true.\<close>

definition ndarray_any :: "bool list \<Rightarrow> bool" where
  "ndarray_any bs = list_ex (\<lambda>b. b) bs"

text \<open>
  \<^verbatim>\<open>a[i]\<close> on a one-dimensional array of length \<open>n\<close>: the indices \<open>-n, \<dots>, -1\<close> count
  from the end, and an index outside \<open>-n, \<dots>, n - 1\<close> raises \<^verbatim>\<open>IndexError\<close>.
\<close>

definition ndarray_getitem :: "real list \<Rightarrow> int \<Rightarrow> error + real" where
  "ndarray_getitem a i =
     (if 0 \<le> i \<and> i < int (length a) then Inr (a ! nat i)
      else if - int (length a) \<le> i \<and> i < 0 then Inr (a ! nat (int (length a) + i))
      else Inl IndexError)"

text \<open>
  When the constructor raises, \<^verbatim>\<open>self\<close> has been through \<^verbatim>\<open>super().__init__\<close> only:
  the exception comes with the instance as it is then, a \<open>minion\<close> with the attributes
  \<^verbatim>\<open>id\<close> and \<^verbatim>\<open>name\<close> and no attribute \<^verbatim>\<open>confusion_matrix\<close>.
\<close>

definition NoisyMinion_init ::
    "int \<Rightarrow> string \<Rightarrow> real list \<Rightarrow> (error \<times> minion) + NoisyMinion" where
  "NoisyMinion_init ident nm cm =
     (let self = minion_init ident nm in
      if ndarray_any (ndarray_lt cm 0) \<and> ndarray_any (ndarray_gt cm 1)
      then Inl (ValueError (''All confusion matrix elements must be in the'' @
                            ''interval [0,1].''), self)
      else Inr (minion.extend self (NoisyMinion.fields cm)))"

text \<open>
  \<^verbatim>\<open>random.random()\<close> belongs to Python's library; the value \<open>u\<close> it delivers in a call,
  a float in \<open>[0, 1)\<close>, is a parameter of the model. The gold label is a Python int: it
  indexes the array.
\<close>

definition NoisyMinion_classify ::
    "NoisyMinion \<Rightarrow> real \<Rightarrow> int \<Rightarrow> int \<Rightarrow> (error + int \<times> pyval) \<times> NoisyMinion" where
  "NoisyMinion_classify self u subject_id gold_label =
     (case ndarray_getitem (confusion_matrix self) gold_label of
        Inl e \<Rightarrow> (Inl e, self)
      | Inr p \<Rightarrow>
          if u < p then (Inr (subject_id, PyInt gold_label), self)
          else (Inr (subject_id, PyBool (gold_label = 0)), self))"

subsection \<open>Calls in sequence\<close>

text \<open>
  \<^verbatim>\<open>test.py\<close> calls \<^verbatim>\<open>classify\<close> of one instance in a loop and collects the results.
  \<open>classify_all\<close> is that loop for any method \<open>m\<close>: one call for each element of the
  argument list, each on the instance as the call before left it.
\<close>

fun classify_all :: "('s \<Rightarrow> 'a \<Rightarrow> 'r \<times> 's) \<Rightarrow> 's \<Rightarrow> 'a list \<Rightarrow> 'r list \<times> 's" where
  "classify_all m self [] = ([], self)"
| "classify_all m self (a # as) =
     (case m self a of (r, self') \<Rightarrow>
        (case classify_all m self' as of (rs, self'') \<Rightarrow> (r # rs, self'')))"

subsection \<open>The law of \<^verbatim>\<open>random.choice\<close>\<close>

text \<open>
  Python's library documents \<^verbatim>\<open>random.choice(seq)\<close> as a uniform choice: on a sequence
  of length \<open>n > 0\<close> each index below \<open>n\<close> is delivered with probability \<open>1 / n\<close>.
  \<open>choice_pmf n\<close> is that law on the indices, and \<open>RandomMinion_classify_prob\<close> the
  probability it gives to an outcome \<open>r\<close> of a call of \<^verbatim>\<open>RandomMinion.classify\<close>: the
  sum over the indices on which the call has the outcome \<open>r\<close>.
\<close>

definition choice_pmf :: "nat \<Rightarrow> nat \<Rightarrow> real" where
  "choice_pmf n k = (if k < n then 1 / real n else 0)"

definition RandomMinion_classify_prob ::
    "'l RandomMinion \<Rightarrow> int \<Rightarrow> (error + int \<times> 'l) \<Rightarrow> real" where
  "RandomMinion_classify_prob self subject_id r =
     (\<Sum>k\<leftarrow>[0..<length (labels self)].
        if fst (RandomMinion_classify self k subject_id) = r
        then choice_pmf (length (labels self)) k else 0)"

section \<open>Properties\<close>

subsection \<open>Auxiliary facts\<close>

lemma AllTheSingleLabelsMinion_init_eq:
  "AllTheSingleLabelsMinion_init i n l = \<lparr>id_attr = i, name = n, label = l\<rparr>"
  by (simp add: AllTheSingleLabelsMinion_init_def minion_init_def minion.defs
      AllTheSingleLabelsMinion.defs)

lemma RandomMinion_init_eq:
  "RandomMinion_init i n ls = \<lparr>id_attr = i, name = n, labels = ls\<rparr>"
  by (simp add: RandomMinion_init_def minion_init_def minion.defs RandomMinion.defs)

lemma ndarray_any_lt: "ndarray_any (ndarray_lt cm c) = (\<exists>x\<in>set cm. x < c)"
  by (simp add: ndarray_any_def ndarray_lt_def list_ex_iff)

lemma ndarray_any_gt: "ndarray_any (ndarray_gt cm c) = (\<exists>x\<in>set cm. c < x)"
  by (simp add: ndarray_any_def ndarray_gt_def list_ex_iff)

lemma NoisyMinion_init_eq:
  "NoisyMinion_init i n cm =
     (if (\<exists>x\<in>set cm. x < 0) \<and> (\<exists>x\<in>set cm. 1 < x)
      then Inl (ValueError ''All confusion matrix elements must be in theinterval [0,1].'',
                \<lparr>id_attr = i, name = n\<rparr>)
      else Inr \<lparr>id_attr = i, name = n, confusion_matrix = cm\<rparr>)"
  by (simp add: NoisyMinion_init_def ndarray_any_lt ndarray_any_gt minion_init_def
      minion.defs NoisyMinion.defs)

lemma classify_all_frame:
  assumes m: "\<And>s a. snd (m s a) = s"
  shows "snd (classify_all m self as) = self"
proof (induction as arbitrary: self)
  case Nil
  show ?case by simp
next
  case (Cons a as)
  obtain r where r: "m self a = (r, self)"
    using m [of self a] by (cases "m self a") simp
  obtain rs where rs: "classify_all m self as = (rs, self)"
    using Cons.IH [of self] by (cases "classify_all m self as") simp
  show ?case by (simp add: r rs)
qed

lemma classify_all_results:
  assumes m: "\<And>s a. snd (m s a) = s"
  shows "fst (classify_all m self as) = map (\<lambda>a. fst (m self a)) as"
proof (induction as)
  case Nil
  show ?case by simp
next
  case (Cons a as)
  obtain r where r: "m self a = (r, self)"
    using m [of self a] by (cases "m self a") simp
  obtain rs where rs: "classify_all m self as = (rs, self)"
    using classify_all_frame [of m self as] m by (cases "classify_all m self as") simp
  show ?case using Cons.IH by (simp add: r rs)
qed

lemma RandomMinion_classify_frame: "snd (RandomMinion_classify self k i) = self"
  by (simp add: RandomMinion_classify_def split: sum.splits)

lemma NoisyMinion_classify_frame: "snd (NoisyMinion_classify self u i g) = self"
  by (simp add: NoisyMinion_classify_def split: sum.splits)

lemma RandomMinion_classify_in_range:
  "k < length (labels self) \<Longrightarrow>
     RandomMinion_classify self k i = (Inr (i, labels self ! k), self)"
  by (simp add: RandomMinion_classify_def random_choice_def)

lemma sum_list_indices:
  "(\<Sum>k\<leftarrow>[0..<length xs]. f (xs ! k)) = (\<Sum>x\<leftarrow>xs. f x)"
proof -
  have "map (\<lambda>k. f (xs ! k)) [0..<length xs] = map f xs"
    by (rule nth_equalityI) simp_all
  then show ?thesis by simp
qed

lemma sum_list_count:
  "(\<Sum>x\<leftarrow>xs. if x = l then (c::real) else 0) = real (count_list xs l) * c"
  by (induction xs) (simp_all add: algebra_simps)

lemma RandomMinion_classify_prob_count:
  "RandomMinion_classify_prob self i (Inr (i, l)) =
     real (count_list (labels self) l) / real (length (labels self))"
proof -
  let ?ls = "labels self"
  let ?n = "length ?ls"
  have "map (\<lambda>k. if fst (RandomMinion_classify self k i) = Inr (i, l)
                   then choice_pmf ?n k else 0) [0..<?n]
      = map (\<lambda>k. if ?ls ! k = l then 1 / real ?n else 0) [0..<?n]"
    by (rule map_cong) (simp_all add: RandomMinion_classify_in_range choice_pmf_def)
  then have "RandomMinion_classify_prob self i (Inr (i, l))
      = (\<Sum>k\<leftarrow>[0..<?n]. if ?ls ! k = l then 1 / real ?n else 0)"
    by (simp only: RandomMinion_classify_prob_def)
  also have "\<dots> = (\<Sum>x\<leftarrow>?ls. if x = l then 1 / real ?n else 0)"
    by (rule sum_list_indices [of "\<lambda>x. if x = l then 1 / real ?n else 0" ?ls])
  also have "\<dots> = real (count_list ?ls l) * (1 / real ?n)"
    by (rule sum_list_count)
  finally show ?thesis by simp
qed

lemma count_list_distinct:
  "distinct xs \<Longrightarrow> x \<in> set xs \<Longrightarrow> count_list xs x = 1"
  by (induction xs) (auto simp: count_list_0_iff)

lemma minion_classify_frame: "snd (minion_classify self i) = self"
  by (simp add: minion_classify_def)

lemma ExpertMinion_classify_frame: "snd (ExpertMinion_classify self i g) = self"
  by (simp add: ExpertMinion_classify_def)

lemma AllTheSingleLabelsMinion_classify_frame:
  "snd (AllTheSingleLabelsMinion_classify self i) = self"
  by (simp add: AllTheSingleLabelsMinion_classify_def)

lemma RandomMinion_classify_prob_total:
  assumes "labels self \<noteq> []"
  shows "(\<Sum>l\<leftarrow>remdups (labels self). RandomMinion_classify_prob self i (Inr (i, l))) = 1"
proof -
  let ?ls = "labels self"
  let ?n = "length ?ls"
  have n: "real ?n \<noteq> 0"
    using assms by simp
  have "(\<Sum>l\<leftarrow>remdups ?ls. RandomMinion_classify_prob self i (Inr (i, l)))
      = (\<Sum>l\<leftarrow>remdups ?ls. real (count_list ?ls l) / real ?n)"
    by (simp only: RandomMinion_classify_prob_count)
  also have "\<dots> = (\<Sum>l\<in>set ?ls. real (count_list ?ls l) / real ?n)"
    using sum_list_distinct_conv_sum_set [of "remdups ?ls" "\<lambda>l. real (count_list ?ls l) / real ?n"]
    by simp
  also have "\<dots> = real (\<Sum>l\<in>set ?ls. count_list ?ls l) / real ?n"
    by (simp add: sum_divide_distrib)
  also have "\<dots> = real ?n / real ?n"
    using sum_count_set [of ?ls "set ?ls"] by simp
  also have "\<dots> = 1"
    using n by simp
  finally show ?thesis .
qed

lemma RandomMinion_classify_all_results:
  assumes "\<forall>c\<in>set calls. fst c < length (labels self)"
  shows "fst (classify_all (\<lambda>s (k, j). RandomMinion_classify s k j) self calls) =
     map (\<lambda>(k, j). Inr (j, labels self ! k)) calls"
proof -
  have "fst (classify_all (\<lambda>s (k, j). RandomMinion_classify s k j) self calls) =
      map (\<lambda>c. fst ((\<lambda>s (k, j). RandomMinion_classify s k j) self c)) calls"
    by (rule classify_all_results) (simp add: RandomMinion_classify_frame split: prod.splits)
  also have "\<dots> = map (\<lambda>(k, j). Inr (j, labels self ! k)) calls"
    using assms by (intro map_cong) (auto simp: RandomMinion_classify_in_range)
  finally show ?thesis .
qed

subsection \<open>The constructor of NoisyMinion\<close>

text \<open>
  C1. The construction of a NoisyMinion with the confusion matrix \<open>[1.5, 0.2]\<close> is to
  fail with a \<^verbatim>\<open>ValueError\<close>: the constructor's docstring and the text of its error
  message want every element in \<open>[0, 1]\<close>. The code joins its two range tests with
  \<^verbatim>\<open>and\<close>: on \<open>[1.5, 0.2]\<close> no element is below 0, nothing is raised, and the
  instance is built with the matrix stored as given.
\<close>

theorem NoisyMinion_init_accepts_one_sided:
  "NoisyMinion_init 1 ''n'' [3 / 2, 1 / 5] =
     Inr \<lparr>id_attr = 1, name = ''n'', confusion_matrix = [3 / 2, 1 / 5]\<rparr>"
  by (simp add: NoisyMinion_init_eq)

text \<open>
  C10. The constructor raises \<^verbatim>\<open>ValueError\<close> exactly when the matrix has an element
  below 0 and also an element above 1. Then \<^verbatim>\<open>self\<close> has the attributes \<^verbatim>\<open>id\<close> and
  \<^verbatim>\<open>name\<close> only; otherwise the instance is built and holds the matrix unchanged.
\<close>

theorem NoisyMinion_init_raises_iff:
  "((\<exists>msg self. NoisyMinion_init i n cm = Inl (ValueError msg, self)) =
      ((\<exists>x\<in>set cm. x < 0) \<and> (\<exists>x\<in>set cm. 1 < x)))
   \<and> NoisyMinion_init i n cm =
      (if (\<exists>x\<in>set cm. x < 0) \<and> (\<exists>x\<in>set cm. 1 < x)
       then Inl (ValueError ''All confusion matrix elements must be in theinterval [0,1].'',
                 \<lparr>id_attr = i, name = n\<rparr>)
       else Inr \<lparr>id_attr = i, name = n, confusion_matrix = cm\<rparr>)"
  by (simp add: NoisyMinion_init_eq)

theorem NoisyMinion_init_raises_iff_witness:
  "NoisyMinion_init 1 ''n'' [3 / 2, 1 / 5] =
      Inr \<lparr>id_attr = 1, name = ''n'', confusion_matrix = [3 / 2, 1 / 5]\<rparr>
   \<and> NoisyMinion_init 1 ''n'' [- 1 / 2, 1 / 2] =
      Inr \<lparr>id_attr = 1, name = ''n'', confusion_matrix = [- 1 / 2, 1 / 2]\<rparr>
   \<and> NoisyMinion_init 1 ''n'' [- 1 / 2, 3 / 2] =
      Inl (ValueError ''All confusion matrix elements must be in theinterval [0,1].'',
           \<lparr>id_attr = 1, name = ''n''\<rparr>)"
proof -
  have "NoisyMinion_init 1 ''n'' [3 / 2, 1 / 5] =
      Inr \<lparr>id_attr = 1, name = ''n'', confusion_matrix = [3 / 2, 1 / 5]\<rparr>"
    using NoisyMinion_init_raises_iff [of 1 "''n''" "[3 / 2, 1 / 5]", THEN conjunct2]
    by simp
  moreover have "NoisyMinion_init 1 ''n'' [- 1 / 2, 1 / 2] =
      Inr \<lparr>id_attr = 1, name = ''n'', confusion_matrix = [- 1 / 2, 1 / 2]\<rparr>"
    using NoisyMinion_init_raises_iff [of 1 "''n''" "[- 1 / 2, 1 / 2]", THEN conjunct2]
    by simp
  moreover have "NoisyMinion_init 1 ''n'' [- 1 / 2, 3 / 2] =
      Inl (ValueError ''All confusion matrix elements must be in theinterval [0,1].'',
           \<lparr>id_attr = 1, name = ''n''\<rparr>)"
  proof -
    have lo: "\<exists>x\<in>set [- 1 / 2, 3 / 2 :: real]. x < 0"
      by (rule bexI [of _ "- 1 / 2"]) simp_all
    have hi: "\<exists>x\<in>set [- 1 / 2, 3 / 2 :: real]. 1 < x"
      by (rule bexI [of _ "3 / 2"]) simp_all
    show ?thesis
      using NoisyMinion_init_raises_iff [of 1 "''n''" "[- 1 / 2, 3 / 2]", THEN conjunct2]
      by (simp only: lo hi simp_thms if_True)
  qed
  ultimately show ?thesis by simp
qed

subsection \<open>NoisyMinion.classify\<close>





subsection \<open>The deterministic classifiers\<close>

text \<open>
  C4. \<^verbatim>\<open>ExpertMinion.classify\<close> returns the pair of its subject and its gold label,
  for every instance, subject and gold label; so
  \<^verbatim>\<open>ExpertMinion(1, "e").classify(7, 1)\<close> is \<open>(7, 1)\<close>.
\<close>

theorem ExpertMinion_classify_gold:
  "fst (ExpertMinion_classify self subject_id gold_label) = (subject_id, gold_label)
   \<and> fst (ExpertMinion_classify (ExpertMinion_init 1 ''e'') 7 (PyInt 1)) = (7, PyInt 1)"
  by (simp add: ExpertMinion_classify_def)

text \<open>
  C5. \<^verbatim>\<open>AllTheSingleLabelsMinion.classify\<close> of an instance built with the label \<open>L\<close>
  returns the pair of its subject and \<open>L\<close>, for every subject; the method has no gold
  label among its arguments.
\<close>

theorem AllTheSingleLabelsMinion_classify_label:
  "fst (AllTheSingleLabelsMinion_classify (AllTheSingleLabelsMinion_init i n L) subject_id) =
     (subject_id, L)"
  by (simp add: AllTheSingleLabelsMinion_classify_def AllTheSingleLabelsMinion_init_eq)

text \<open>
  C7. \<^verbatim>\<open>classify\<close> of the base class raises \<^verbatim>\<open>NotImplementedError\<close> on every
  instance and every subject. The constructor of the base class raises nothing: it
  returns the instance with the two attributes set.
\<close>

theorem minion_classify_not_implemented:
  "fst (minion_classify self subject_id) = Inl NotImplementedError
   \<and> fst (minion_classify (minion_init i n) subject_id) = Inl NotImplementedError
   \<and> minion_init i n = \<lparr>id_attr = i, name = n\<rparr>"
  by (simp add: minion_classify_def minion_init_def)

subsection \<open>RandomMinion.classify\<close>

text \<open>
  C6. For a RandomMinion built with a non-empty list of labels: every index \<open>k\<close> of the
  list is delivered by \<^verbatim>\<open>random.choice\<close> with probability \<open>1 / len(labels)\<close>, and on
  it \<^verbatim>\<open>classify\<close> returns the subject together with the element at \<open>k\<close>, a member of
  the list; every label of the list is returned on some index. So the pair
  \<open>(subject_id, l)\<close> has the probability \<open>count l / len(labels)\<close>, which is
  \<open>1 / len(labels)\<close> for every element of a list without repetitions, and these
  probabilities add up to 1. In a sequence of calls the result of each call is the
  element at the index of that call alone.
\<close>

theorem RandomMinion_classify_uniform:
  assumes "ls \<noteq> []"
  shows "(\<forall>k<length ls.
            choice_pmf (length ls) k = 1 / real (length ls)
            \<and> fst (RandomMinion_classify (RandomMinion_init a n ls) k subject_id) =
              Inr (subject_id, ls ! k) \<and> ls ! k \<in> set ls)
     \<and> (\<forall>l\<in>set ls. \<exists>k<length ls.
            fst (RandomMinion_classify (RandomMinion_init a n ls) k subject_id) =
              Inr (subject_id, l))
     \<and> (\<forall>l. RandomMinion_classify_prob (RandomMinion_init a n ls) subject_id
                 (Inr (subject_id, l)) = real (count_list ls l) / real (length ls))
     \<and> (distinct ls \<longrightarrow> (\<forall>l\<in>set ls.
            RandomMinion_classify_prob (RandomMinion_init a n ls) subject_id
              (Inr (subject_id, l)) = 1 / real (length ls)))
     \<and> (\<Sum>l\<leftarrow>remdups ls. RandomMinion_classify_prob (RandomMinion_init a n ls) subject_id
                 (Inr (subject_id, l))) = 1
     \<and> ((\<forall>c\<in>set calls. fst c < length ls) \<longrightarrow>
          fst (classify_all (\<lambda>s (k, j). RandomMinion_classify s k j)
                 (RandomMinion_init a n ls) calls) =
            map (\<lambda>(k, j). Inr (j, ls ! k)) calls)"
proof -
  let ?self = "RandomMinion_init a n ls"
  have ls: "labels ?self = ls"
    by (simp add: RandomMinion_init_eq)
  have pos: "\<forall>k<length ls. choice_pmf (length ls) k = 1 / real (length ls)
      \<and> fst (RandomMinion_classify ?self k subject_id) = Inr (subject_id, ls ! k)
      \<and> ls ! k \<in> set ls"
    using RandomMinion_classify_in_range [of _ ?self subject_id]
    by (simp add: ls choice_pmf_def)
  have reach: "\<forall>l\<in>set ls. \<exists>k<length ls.
      fst (RandomMinion_classify ?self k subject_id) = Inr (subject_id, l)"
  proof
    fix l assume "l \<in> set ls"
    then obtain k where "k < length ls" "ls ! k = l"
      by (auto simp: in_set_conv_nth)
    with pos show "\<exists>k<length ls.
        fst (RandomMinion_classify ?self k subject_id) = Inr (subject_id, l)"
      by auto
  qed
  have prob: "\<forall>l. RandomMinion_classify_prob ?self subject_id (Inr (subject_id, l)) =
      real (count_list ls l) / real (length ls)"
    using RandomMinion_classify_prob_count [of ?self subject_id] by (simp add: ls)
  have dist: "distinct ls \<longrightarrow> (\<forall>l\<in>set ls.
      RandomMinion_classify_prob ?self subject_id (Inr (subject_id, l)) = 1 / real (length ls))"
    using prob by (simp add: count_list_distinct)
  have total: "(\<Sum>l\<leftarrow>remdups ls.
      RandomMinion_classify_prob ?self subject_id (Inr (subject_id, l))) = 1"
    using RandomMinion_classify_prob_total [of ?self subject_id] assms by (simp add: ls)
  have indep: "(\<forall>c\<in>set calls. fst c < length ls) \<longrightarrow>
      fst (classify_all (\<lambda>s (k, j). RandomMinion_classify s k j) ?self calls) =
        map (\<lambda>(k, j). Inr (j, ls ! k)) calls"
    using RandomMinion_classify_all_results [of calls ?self] by (simp add: ls)
  from pos reach prob dist total indep show ?thesis
    by (intro conjI)
qed

theorem RandomMinion_classify_uniform_witness:
  "choice_pmf 2 1 = 1 / 2
   \<and> fst (RandomMinion_classify (RandomMinion_init 4 ''r'' [0::int, 1]) 1 1) = Inr (1, 1)
   \<and> RandomMinion_classify_prob (RandomMinion_init 4 ''r'' [0::int, 1]) 1 (Inr (1, 0)) = 1 / 2
   \<and> RandomMinion_classify_prob (RandomMinion_init 4 ''r'' [0::int, 1]) 1 (Inr (1, 1)) = 1 / 2
   \<and> fst (classify_all (\<lambda>s (k, j). RandomMinion_classify s k j)
            (RandomMinion_init 4 ''r'' [0::int, 1]) [(0, 1), (1, 1), (1, 1)]) =
       [Inr (1, 0), Inr (1, 1), Inr (1, 1)]"
proof -
  have ne: "[0::int, 1] \<noteq> []"
    by simp
  note t = RandomMinion_classify_uniform [where ls = "[0::int, 1]" and a = 4 and n = "''r''"
      and subject_id = 1 and calls = "[(0, 1), (1, 1), (1, 1)]", OF ne]
  have r: "choice_pmf 2 1 = 1 / 2
      \<and> fst (RandomMinion_classify (RandomMinion_init 4 ''r'' [0::int, 1]) 1 1) = Inr (1, 1)"
    using t [THEN conjunct1, rule_format, of 1] by (simp add: numeral_2_eq_2)
  have p0: "RandomMinion_classify_prob (RandomMinion_init 4 ''r'' [0::int, 1]) 1 (Inr (1, 0)) = 1 / 2"
    using t [THEN conjunct2, THEN conjunct2, THEN conjunct1, rule_format, of 0] by simp
  have p1: "RandomMinion_classify_prob (RandomMinion_init 4 ''r'' [0::int, 1]) 1 (Inr (1, 1)) = 1 / 2"
    using t [THEN conjunct2, THEN conjunct2, THEN conjunct1, rule_format, of 1] by simp
  have c: "fst (classify_all (\<lambda>s (k, j). RandomMinion_classify s k j)
            (RandomMinion_init 4 ''r'' [0::int, 1]) [(0, 1), (1, 1), (1, 1)]) =
       [Inr (1, 0), Inr (1, 1), Inr (1, 1)]"
    using t [THEN conjunct2, THEN conjunct2, THEN conjunct2, THEN conjunct2, THEN conjunct2]
    by simp
  from r p0 p1 c show ?thesis
    by simp
qed

subsection \<open>Repeated calls\<close>

text \<open>
  C8. \<^verbatim>\<open>ExpertMinion.classify\<close> and \<^verbatim>\<open>AllTheSingleLabelsMinion.classify\<close> return the
  same result on the same arguments whatever calls came before on the instance, and
  \<open>m\<close> calls in a row on the same arguments return \<open>m\<close> times the same result.
\<close>

theorem deterministic_classify_idempotent:
  "fst (ExpertMinion_classify
          (snd (classify_all (\<lambda>s (i, g). ExpertMinion_classify s i g) self calls))
          subject_id gold_label) =
     fst (ExpertMinion_classify self subject_id gold_label)
   \<and> fst (classify_all (\<lambda>s (i, g). ExpertMinion_classify s i g) self
            (replicate m (subject_id, gold_label))) =
     replicate m (fst (ExpertMinion_classify self subject_id gold_label))
   \<and> fst (AllTheSingleLabelsMinion_classify
          (snd (classify_all AllTheSingleLabelsMinion_classify self' calls')) subject_id) =
     fst (AllTheSingleLabelsMinion_classify self' subject_id)
   \<and> fst (classify_all AllTheSingleLabelsMinion_classify self' (replicate m subject_id)) =
     replicate m (fst (AllTheSingleLabelsMinion_classify self' subject_id))"
proof -
  have e: "\<And>s c. snd ((\<lambda>s (i, g). ExpertMinion_classify s i g) s c) = s"
    by (simp add: ExpertMinion_classify_frame split: prod.splits)
  have e1: "snd (classify_all (\<lambda>s (i, g). ExpertMinion_classify s i g) self calls) = self"
    by (rule classify_all_frame) (rule e)
  have e2: "fst (classify_all (\<lambda>s (i, g). ExpertMinion_classify s i g) self
            (replicate m (subject_id, gold_label))) =
      map (\<lambda>c. fst ((\<lambda>s (i, g). ExpertMinion_classify s i g) self c))
        (replicate m (subject_id, gold_label))"
    by (rule classify_all_results) (rule e)
  have a1: "snd (classify_all AllTheSingleLabelsMinion_classify self' calls') = self'"
    by (rule classify_all_frame) (rule AllTheSingleLabelsMinion_classify_frame)
  have a2: "fst (classify_all AllTheSingleLabelsMinion_classify self' (replicate m subject_id)) =
      map (\<lambda>c. fst (AllTheSingleLabelsMinion_classify self' c)) (replicate m subject_id)"
    by (rule classify_all_results) (rule AllTheSingleLabelsMinion_classify_frame)
  show ?thesis
    by (simp add: e1 e2 a1 a2)
qed

theorem deterministic_classify_idempotent_witness:
  "fst (ExpertMinion_classify
          (snd (classify_all (\<lambda>s (i, g). ExpertMinion_classify s i g)
                  (ExpertMinion_init 1 ''e'') [(3, PyInt 0), (7, PyInt 1)]))
          7 (PyInt 1)) = (7, PyInt 1)
   \<and> fst (AllTheSingleLabelsMinion_classify
          (snd (classify_all AllTheSingleLabelsMinion_classify
                  (AllTheSingleLabelsMinion_init 2 ''a'' (PyInt 0)) [5, 9]))
          9) = (9, PyInt 0)"
  using deterministic_classify_idempotent [where self = "ExpertMinion_init 1 ''e''"
      and calls = "[(3, PyInt 0), (7, PyInt 1)]" and subject_id = 7 and gold_label = "PyInt 1"
      and self' = "AllTheSingleLabelsMinion_init 2 ''a'' (PyInt 0)" and calls' = "[5, 9]"
      and m = 2]
  by (simp add: ExpertMinion_classify_def AllTheSingleLabelsMinion_classify_def
      AllTheSingleLabelsMinion_init_eq)

text \<open>
  C9. \<^verbatim>\<open>classify\<close> of each of the five classes returns the instance as it received it;
  and after any sequence of calls an instance holds the attributes \<^verbatim>\<open>id\<close>,
  \<^verbatim>\<open>name\<close> and \<^verbatim>\<open>label\<close>, \<^verbatim>\<open>labels\<close> or \<^verbatim>\<open>confusion_matrix\<close> with the values its
  constructor was given.
\<close>

theorem classify_leaves_instance_unchanged:
  "snd (minion_classify base subject_id) = base
   \<and> snd (ExpertMinion_classify expert subject_id gold) = expert
   \<and> snd (AllTheSingleLabelsMinion_classify single subject_id) = single
   \<and> snd (RandomMinion_classify rnd k subject_id) = rnd
   \<and> snd (NoisyMinion_classify noisy u subject_id gold_label) = noisy
   \<and> snd (classify_all minion_classify (minion_init a n) calls_b) = \<lparr>id_attr = a, name = n\<rparr>
   \<and> snd (classify_all (\<lambda>s (i, g). ExpertMinion_classify s i g) (ExpertMinion_init a n) calls_e) =
       \<lparr>id_attr = a, name = n\<rparr>
   \<and> snd (classify_all AllTheSingleLabelsMinion_classify
            (AllTheSingleLabelsMinion_init a n l) calls_s) =
       \<lparr>id_attr = a, name = n, label = l\<rparr>
   \<and> snd (classify_all (\<lambda>s (k, i). RandomMinion_classify s k i)
            (RandomMinion_init a n ls) calls_r) =
       \<lparr>id_attr = a, name = n, labels = ls\<rparr>
   \<and> (\<forall>self. NoisyMinion_init a n cm = Inr self \<longrightarrow>
         snd (classify_all (\<lambda>s (u, i, g). NoisyMinion_classify s u i g) self calls_n) =
           \<lparr>id_attr = a, name = n, confusion_matrix = cm\<rparr>)"
proof -
  have "snd (classify_all minion_classify (minion_init a n) calls_b) = minion_init a n"
    by (rule classify_all_frame) (rule minion_classify_frame)
  then have cb: "snd (classify_all minion_classify (minion_init a n) calls_b) =
      \<lparr>id_attr = a, name = n\<rparr>"
    by (simp only: minion_init_def)
  have "snd (classify_all (\<lambda>s (i, g). ExpertMinion_classify s i g)
      (ExpertMinion_init a n) calls_e) = ExpertMinion_init a n"
    by (rule classify_all_frame) (simp add: ExpertMinion_classify_frame split: prod.splits)
  then have ce: "snd (classify_all (\<lambda>s (i, g). ExpertMinion_classify s i g)
      (ExpertMinion_init a n) calls_e) = \<lparr>id_attr = a, name = n\<rparr>"
    by (simp only: ExpertMinion_init_def minion_init_def)
  have "snd (classify_all AllTheSingleLabelsMinion_classify
      (AllTheSingleLabelsMinion_init a n l) calls_s) = AllTheSingleLabelsMinion_init a n l"
    by (rule classify_all_frame) (rule AllTheSingleLabelsMinion_classify_frame)
  then have cs: "snd (classify_all AllTheSingleLabelsMinion_classify
      (AllTheSingleLabelsMinion_init a n l) calls_s) = \<lparr>id_attr = a, name = n, label = l\<rparr>"
    by (simp only: AllTheSingleLabelsMinion_init_eq)
  have "snd (classify_all (\<lambda>s (k, i). RandomMinion_classify s k i)
      (RandomMinion_init a n ls) calls_r) = RandomMinion_init a n ls"
    by (rule classify_all_frame) (simp add: RandomMinion_classify_frame split: prod.splits)
  then have cr: "snd (classify_all (\<lambda>s (k, i). RandomMinion_classify s k i)
      (RandomMinion_init a n ls) calls_r) = \<lparr>id_attr = a, name = n, labels = ls\<rparr>"
    by (simp only: RandomMinion_init_eq)
  have cn: "\<forall>self. NoisyMinion_init a n cm = Inr self \<longrightarrow>
      snd (classify_all (\<lambda>s (u, i, g). NoisyMinion_classify s u i g) self calls_n) =
        \<lparr>id_attr = a, name = n, confusion_matrix = cm\<rparr>"
  proof (intro allI impI)
    fix self
    assume "NoisyMinion_init a n cm = Inr self"
    then have self: "self = \<lparr>id_attr = a, name = n, confusion_matrix = cm\<rparr>"
      by (simp add: NoisyMinion_init_eq split: if_splits)
    have "snd (classify_all (\<lambda>s (u, i, g). NoisyMinion_classify s u i g) self calls_n) = self"
      by (rule classify_all_frame) (simp add: NoisyMinion_classify_frame split: prod.splits)
    with self show "snd (classify_all (\<lambda>s (u, i, g). NoisyMinion_classify s u i g) self calls_n) =
        \<lparr>id_attr = a, name = n, confusion_matrix = cm\<rparr>"
      by simp
  qed
  from cb ce cs cr cn show ?thesis
    by (simp only: minion_classify_frame ExpertMinion_classify_frame
        AllTheSingleLabelsMinion_classify_frame RandomMinion_classify_frame
        NoisyMinion_classify_frame simp_thms)
qed

theorem classify_leaves_instance_unchanged_witness:
  "snd (NoisyMinion_classify \<lparr>id_attr = 5, name = ''noisy'', confusion_matrix = [1 / 2, 1 / 5]\<rparr>
          (3 / 4) 7 0) =
     \<lparr>id_attr = 5, name = ''noisy'', confusion_matrix = [1 / 2, 1 / 5]\<rparr>
   \<and> snd (classify_all (\<lambda>s (u, i, g). NoisyMinion_classify s u i g)
          \<lparr>id_attr = 5, name = ''noisy'', confusion_matrix = [1 / 2, 1 / 5]\<rparr>
          [(3 / 4, 7, 0), (1 / 4, 8, 1)]) =
     \<lparr>id_attr = 5, name = ''noisy'', confusion_matrix = [1 / 2, 1 / 5]\<rparr>
   \<and> snd (classify_all (\<lambda>s (k, i). RandomMinion_classify s k i)
            (RandomMinion_init 4 ''r'' [0::int, 1]) [(1, 1), (0, 1)]) =
       \<lparr>id_attr = 4, name = ''r'', labels = [0, 1]\<rparr>"
proof -
  let ?self = "\<lparr>id_attr = 5, name = ''noisy'', confusion_matrix = [1 / 2, 1 / 5]\<rparr>"
  note t = classify_leaves_instance_unchanged [where noisy = ?self and u = "3 / 4"
      and subject_id = 7 and gold_label = 0 and a = 5 and n = "''noisy''"
      and cm = "[1 / 2, 1 / 5]" and calls_n = "[(3 / 4, 7, 0), (1 / 4, 8, 1)]"]
  note r = classify_leaves_instance_unchanged [where a = 4 and n = "''r''"
      and ls = "[0::int, 1]" and calls_r = "[(1, 1), (0, 1)]"]
  have init: "NoisyMinion_init 5 ''noisy'' [1 / 2, 1 / 5] = Inr ?self"
    by (simp add: NoisyMinion_init_eq)
  have s1: "snd (NoisyMinion_classify ?self (3 / 4) 7 0) = ?self"
    by (rule t [THEN conjunct2, THEN conjunct2, THEN conjunct2, THEN conjunct2, THEN conjunct1])
  have s2: "snd (classify_all (\<lambda>s (u, i, g). NoisyMinion_classify s u i g) ?self
      [(3 / 4, 7, 0), (1 / 4, 8, 1)]) = ?self"
    by (rule t [THEN conjunct2, THEN conjunct2, THEN conjunct2, THEN conjunct2, THEN conjunct2, THEN conjunct2, THEN conjunct2, THEN conjunct2, THEN conjunct2, rule_format, OF init])
  have s3: "snd (classify_all (\<lambda>s (k, i). RandomMinion_classify s k i)
      (RandomMinion_init 4 ''r'' [0::int, 1]) [(1, 1), (0, 1)]) =
       \<lparr>id_attr = 4, name = ''r'', labels = [0, 1]\<rparr>"
    by (rule r [THEN conjunct2, THEN conjunct2, THEN conjunct2, THEN conjunct2, THEN conjunct2, THEN conjunct2, THEN conjunct2, THEN conjunct2, THEN conjunct1])
  from s1 s2 s3 show ?thesis
    by (intro conjI)
qed

end
